theory Spec2Isabelle
  imports Complex_Main "HOL-Library.AList" "HOL-Library.Multiset"
begin

section \<open>Data model\<close>

text \<open>
  A podcast is a JavaScript object whose text fields may be absent; an absent field is
  \<open>None\<close>. The source reads every text field through \<open>a || b || default\<close>, which also
  skips an empty string. Numbers are JavaScript numbers; they are modelled as real
  numbers, so rounding, overflow and NaN of IEEE arithmetic are outside the model
  (but for \<open>calculateCosineSimilarityDouble\<close>, which rounds as the source does).
  Strings are lists of 8-bit characters (the code units below 256). A list argument is
  a list of podcast objects; only \<open>rankCandidates\<close> and \<open>generateRecommendations\<close>
  are modelled with list arguments that may be missing.
  The field \<open>id\<close> is named \<open>podcast_id\<close>, since \<open>id\<close> is the identity function of HOL.
\<close>

record podcast =
  podcast_id :: string
  title :: "string option"
  title_original :: "string option"
  description :: "string option"
  description_original :: "string option"
  publisher :: "string option"
  publisher_original :: "string option"
  genre_ids :: "int list option"

text \<open>\<open>{term, score}\<close>: a topic of \<open>extractTopics\<close>. The field \<open>term\<close> is written \<open>term'\<close>.\<close>

record topic =
  term' :: string
  score :: real

text \<open>
  The libraries and services the repository calls but does not contain, as parameters:
  the English stop-word list of the package \<open>stopword\<close>, the word tokenizer and the
  TF-IDF term list of the package \<open>natural\<close> (\<open>addDocument\<close> followed by \<open>listTerms(0)\<close>),
  the vector that \<open>generateEmbedding\<close> resolves to for a text (the answer of the
  embedding provider, the cache and the zero-vector fallback together: any function of
  the text, so that two texts may share a vector as they do when the cache serves one
  for the other), and the order in which the JavaScript engine leaves an array sorted
  with a comparator that is not consistent (see \<open>sortByCount\<close>).
\<close>

datatype count = Num nat | NotNum

record env =
  stopwords :: "string list"
  tokenize :: "string \<Rightarrow> string list"
  listTerms :: "string \<Rightarrow> topic list"
  generateEmbedding :: "string \<Rightarrow> real list"
  engineSort :: "(string \<times> count) list \<Rightarrow> (string \<times> count) list"

text \<open>\<open>a || b\<close> on a text field that may be absent, and on a string.\<close>

definition orElse :: "string option \<Rightarrow> string option \<Rightarrow> string option" where
  "orElse a b = (case a of None \<Rightarrow> b | Some s \<Rightarrow> if s = [] then b else Some s)"

definition orDefault :: "string option \<Rightarrow> string \<Rightarrow> string" where
  "orDefault a d = (case a of None \<Rightarrow> d | Some s \<Rightarrow> if s = [] then d else s)"

definition descriptionOf :: "podcast \<Rightarrow> string" where
  \<comment> \<open>\<open>podcast.description || podcast.description_original || ''\<close>\<close>
  "descriptionOf p = orDefault (orElse (description p) (description_original p)) []"

definition publisherOf :: "podcast \<Rightarrow> string option" where
  \<comment> \<open>\<open>p.publisher || p.publisher_original\<close>, kept only when truthy (\<open>filter(Boolean)\<close>)\<close>
  "publisherOf p = (case orElse (publisher p) (publisher_original p) of
      None \<Rightarrow> None | Some s \<Rightarrow> if s = [] then None else Some s)"

text \<open>
  The elements of a list in the order of their first occurrence, without those of
  \<open>seen\<close>: the iteration order of a \<open>Set\<close> filled from the list, and a filter that
  records the keys it has seen.
\<close>

fun firstOccurrences :: "'a set \<Rightarrow> 'a list \<Rightarrow> 'a list" where
  "firstOccurrences seen [] = []"
| "firstOccurrences seen (x # xs) =
     (if x \<in> seen then firstOccurrences seen xs
      else x # firstOccurrences (insert x seen) xs)"

section \<open>Text processing (text-processing.js)\<close>

subsection \<open>Characters and the regular expressions of \<open>preprocessText\<close>\<close>

definition isDigit :: "char \<Rightarrow> bool" where
  "isDigit c = (let n = (of_char c :: nat) in 48 \<le> n \<and> n \<le> 57)"

definition isWordChar :: "char \<Rightarrow> bool" where
  \<comment> \<open>the class \<open>\w\<close>: letters A-Z and a-z, digits, underscore\<close>
  "isWordChar c = (let n = (of_char c :: nat) in
     (48 \<le> n \<and> n \<le> 57) \<or> (65 \<le> n \<and> n \<le> 90) \<or> n = 95 \<or> (97 \<le> n \<and> n \<le> 122))"

definition isSpaceChar :: "char \<Rightarrow> bool" where
  \<comment> \<open>the class \<open>\s\<close> below 256: tab, line feed, vertical tab, form feed, carriage
     return, space, no-break space; \<open>trim\<close> removes the same characters\<close>
  "isSpaceChar c = (let n = (of_char c :: nat) in (9 \<le> n \<and> n \<le> 13) \<or> n = 32 \<or> n = 160)"

definition isUpperChar :: "char \<Rightarrow> bool" where
  \<comment> \<open>the letters A-Z and the upper-case letters of Latin-1 (192-222 but the sign 215)\<close>
  "isUpperChar c = (let n = (of_char c :: nat) in
     (65 \<le> n \<and> n \<le> 90) \<or> (192 \<le> n \<and> n \<le> 222 \<and> n \<noteq> 215))"

definition toLowerChar :: "char \<Rightarrow> char" where
  \<comment> \<open>the lower-case letter of an upper-case letter below 256 is 32 code units above it\<close>
  "toLowerChar c = (if isUpperChar c then char_of (of_char c + (32::nat)) else c)"

definition toLowerCase :: "string \<Rightarrow> string" where
  "toLowerCase s = map toLowerChar s"

text \<open>
  \<open>.replace(/<[^>]*>/g, ' ')\<close>: scanning from the left, a \<open><\<close> that has a \<open>>\<close> somewhere
  after it is replaced, with everything up to the first such \<open>>\<close>, by one space; a \<open><\<close>
  with no \<open>>\<close> after it stays.
\<close>

function replaceTags :: "string \<Rightarrow> string" where
  "replaceTags [] = []"
| "replaceTags (c # cs) =
     (if c = CHR ''<'' \<and> CHR ''>'' \<in> set cs
      then CHR '' '' # replaceTags (tl (dropWhile (\<lambda>x. x \<noteq> CHR ''>'') cs))
      else c # replaceTags cs)"
  by pat_completeness auto
termination
  by (relation "measure length")
    (auto simp: less_Suc_eq_le intro: le_trans [OF diff_le_self length_dropWhile_le])

definition replaceSpecial :: "string \<Rightarrow> string" where
  \<comment> \<open>\<open>.replace(/[^\w\s]/g, ' ')\<close>\<close>
  "replaceSpecial s = map (\<lambda>c. if isWordChar c \<or> isSpaceChar c then c else CHR '' '') s"

function replaceSpaces :: "string \<Rightarrow> string" where
  \<comment> \<open>\<open>.replace(/\s+/g, ' ')\<close>: every maximal run of white space becomes one space\<close>
  "replaceSpaces [] = []"
| "replaceSpaces (c # cs) =
     (if isSpaceChar c then CHR '' '' # replaceSpaces (dropWhile isSpaceChar cs)
      else c # replaceSpaces cs)"
  by pat_completeness auto
termination
  by (relation "measure length") (auto simp: less_Suc_eq_le length_dropWhile_le)

definition trim :: "string \<Rightarrow> string" where
  "trim s = rev (dropWhile isSpaceChar (rev (dropWhile isSpaceChar s)))"

definition preprocessText :: "string \<Rightarrow> string" where
  "preprocessText text' =
     (if text' = [] then []
      else trim (replaceSpaces (replaceSpecial (replaceTags (toLowerCase text')))))"

subsection \<open>Tokens\<close>

text \<open>
  \<open>commonWords\<close>, the set of the source, as a list.
\<close>

definition commonWords :: "string list" where
  "commonWords =
    [''the'', ''and'', ''a'', ''an'', ''in'', ''on'', ''at'', ''to'', ''for'', ''of'', ''is'', ''are'',
     ''was'', ''were'', ''this'', ''that'', ''these'', ''those'', ''it'', ''they'', ''we'', ''you'',
     ''he'', ''she'', ''his'', ''her'', ''them'', ''their'', ''our'', ''your'', ''its'', ''has'',
     ''have'', ''had'', ''been'', ''would'', ''could'', ''should'', ''will'', ''can'', ''may'',
     ''might'', ''with'', ''from'', ''by'', ''about'', ''all'', ''but'', ''not'', ''what'', ''when'',
     ''where'', ''who'', ''how'', ''why'', ''which'', ''podcast'', ''show'', ''episode'',
     ''episodes'', ''season'', ''seasons'', ''listen'', ''listening'', ''host'', ''hosts'',
     ''guest'', ''guests'', ''talk'', ''talks'']"

text \<open>
  \<open>stopword.removeStopwords(tokens)\<close> keeps the tokens whose lower-case form is not in
  the package's list; the list is the parameter \<open>stopwords\<close>.
\<close>

definition removeStopwords :: "string list \<Rightarrow> string list \<Rightarrow> string list" where
  "removeStopwords sw tokens = filter (\<lambda>v. toLowerCase v \<notin> set sw) tokens"

text \<open>
  \<open>isNaN(token)\<close> converts the string to a number first. A string converts to a number
  (so \<open>isNaN\<close> is false) when, trimmed of white space, it is empty, a binary, octal or
  hexadecimal literal (\<open>0b\<close>, \<open>0o\<close>, \<open>0x\<close>), or an optionally signed decimal literal:
  \<open>Infinity\<close>, or digits with an optional fraction and an optional exponent.
\<close>

definition allOf :: "(char \<Rightarrow> bool) \<Rightarrow> string \<Rightarrow> bool" where
  \<comment> \<open>one or more characters, all of the class\<close>
  "allOf P s = (s \<noteq> [] \<and> list_all P s)"

definition isHexDigit :: "char \<Rightarrow> bool" where
  "isHexDigit c = (let n = (of_char c :: nat) in
     (48 \<le> n \<and> n \<le> 57) \<or> (65 \<le> n \<and> n \<le> 70) \<or> (97 \<le> n \<and> n \<le> 102))"

definition isOctalDigit :: "char \<Rightarrow> bool" where
  "isOctalDigit c = (let n = (of_char c :: nat) in 48 \<le> n \<and> n \<le> 55)"

definition isBinaryDigit :: "char \<Rightarrow> bool" where
  "isBinaryDigit c = (c = CHR ''0'' \<or> c = CHR ''1'')"

definition isSign :: "char \<Rightarrow> bool" where
  "isSign c = (c = CHR ''+'' \<or> c = CHR ''-'')"

definition isNonDecimalLiteral :: "string \<Rightarrow> bool" where
  "isNonDecimalLiteral s =
     (case s of
        z # x # ds \<Rightarrow>
          z = CHR ''0'' \<and>
          ((x = CHR ''b'' \<or> x = CHR ''B'') \<and> allOf isBinaryDigit ds \<or>
           (x = CHR ''o'' \<or> x = CHR ''O'') \<and> allOf isOctalDigit ds \<or>
           (x = CHR ''x'' \<or> x = CHR ''X'') \<and> allOf isHexDigit ds)
      | _ \<Rightarrow> False)"

definition isExponentPart :: "string \<Rightarrow> bool" where
  "isExponentPart s =
     (case s of
        [] \<Rightarrow> False
      | c # r \<Rightarrow> (c = CHR ''e'' \<or> c = CHR ''E'') \<and>
          (case r of [] \<Rightarrow> False
           | d # r' \<Rightarrow> if isSign d then allOf isDigit r' else allOf isDigit r))"

definition isUnsignedDecimal :: "string \<Rightarrow> bool" where
  "isUnsignedDecimal s =
     (s = ''Infinity'' \<or>
      (let ip = takeWhile isDigit s; rest = dropWhile isDigit s in
       case rest of
         [] \<Rightarrow> ip \<noteq> []
       | c # r \<Rightarrow>
           if c = CHR ''.''
           then (let fp = takeWhile isDigit r; rest2 = dropWhile isDigit r in
                 (ip \<noteq> [] \<or> fp \<noteq> []) \<and> (rest2 = [] \<or> isExponentPart rest2))
           else ip \<noteq> [] \<and> isExponentPart rest))"

definition isNumericString :: "string \<Rightarrow> bool" where
  "isNumericString s =
     (let t = trim s in
      t = [] \<or> isNonDecimalLiteral t \<or>
      (case t of [] \<Rightarrow> False
       | c # r \<Rightarrow> if isSign c then isUnsignedDecimal r else isUnsignedDecimal t))"

definition isNaN :: "string \<Rightarrow> bool" where
  "isNaN s = (\<not> isNumericString s)"

definition filterTokens :: "env \<Rightarrow> string list \<Rightarrow> string list" where
  "filterTokens e tokens =
     (if tokens = [] then []
      else filter (\<lambda>token. length token > 3 \<and> token \<notin> set commonWords \<and> isNaN token)
             (removeStopwords (stopwords e) tokens))"

text \<open>\<open>processed.split(' ')\<close>: the pieces between single spaces; the empty string gives
  one empty piece.\<close>

fun split :: "char \<Rightarrow> string \<Rightarrow> string list" where
  "split sep [] = [[]]"
| "split sep (c # cs) =
     (if c = sep then [] # split sep cs
      else (case split sep cs of w # ws \<Rightarrow> (c # w) # ws | [] \<Rightarrow> [[c]]))"

fun join :: "string \<Rightarrow> string list \<Rightarrow> string" where
  "join sep [] = []"
| "join sep [w] = w"
| "join sep (w # ws) = w @ sep @ join sep ws"

subsection \<open>A plain object used as a table of counts\<close>

text \<open>
  \<open>wordFreq[word] = (wordFreq[word] || 0) + 1\<close> on an object created as \<open>{}\<close>. The
  object is an association list in the order the keys were created. A key that the
  object inherits from \<open>Object.prototype\<close> reads as a function the first time, so its
  count becomes a string and stays one (\<open>NotNum\<close>); an assignment to \<open>__proto__\<close> of a
  string creates no property.
\<close>

definition objectPrototypeKeys :: "string list" where
  "objectPrototypeKeys =
    [''constructor'', ''hasOwnProperty'', ''isPrototypeOf'', ''propertyIsEnumerable'',
     ''toLocaleString'', ''toString'', ''valueOf'', ''__defineGetter__'',
     ''__defineSetter__'', ''__lookupGetter__'', ''__lookupSetter__'']"

definition increment :: "(string \<times> count) list \<Rightarrow> string \<Rightarrow> (string \<times> count) list" where
  "increment obj k =
     (if k = ''__proto__'' then obj
      else AList.update k
             (case map_of obj k of
                Some (Num n) \<Rightarrow> Num (n + 1)
              | Some NotNum \<Rightarrow> NotNum
              | None \<Rightarrow> if k \<in> set objectPrototypeKeys then NotNum else Num 1)
             obj)"

definition countAll :: "string list \<Rightarrow> (string \<times> count) list" where
  "countAll ws = foldl increment [] ws"

text \<open>
  \<open>Object.entries\<close> lists the keys that are array indices first, in ascending numeric
  order, and then the other keys in the order they were created.
\<close>

definition digitsValue :: "string \<Rightarrow> nat" where
  "digitsValue s = foldl (\<lambda>n c. 10 * n + (of_char c - 48)) 0 s"

definition isArrayIndex :: "string \<Rightarrow> bool" where
  "isArrayIndex s =
     (allOf isDigit s \<and> (s = ''0'' \<or> hd s \<noteq> CHR ''0'') \<and> digitsValue s \<le> 4294967294)"

definition objectEntries :: "(string \<times> 'v) list \<Rightarrow> (string \<times> 'v) list" where
  "objectEntries obj =
     sort_key (\<lambda>kv. digitsValue (fst kv)) (filter (\<lambda>kv. isArrayIndex (fst kv)) obj) @
     filter (\<lambda>kv. \<not> isArrayIndex (fst kv)) obj"

subsection \<open>Keywords and topics\<close>

text \<open>
  \<open>.sort((a, b) => b[1] - a[1])\<close> is a stable sort, highest count first, when every
  count is a number. When a count is a string the comparator yields NaN against it;
  the order the engine then leaves is the parameter \<open>engineSort\<close>.
\<close>

definition countValue :: "count \<Rightarrow> nat" where
  "countValue c = (case c of Num n \<Rightarrow> n | NotNum \<Rightarrow> 0)"

definition isNum :: "count \<Rightarrow> bool" where
  "isNum c = (case c of Num n \<Rightarrow> True | NotNum \<Rightarrow> False)"

definition sortByCount :: "env \<Rightarrow> (string \<times> count) list \<Rightarrow> (string \<times> count) list" where
  "sortByCount e entries =
     (if list_all (\<lambda>kv. isNum (snd kv)) entries \<or> length entries \<le> 1
      then sort_key (\<lambda>kv. - int (countValue (snd kv))) entries
      else engineSort e entries)"

definition extractKeywords :: "env \<Rightarrow> string \<Rightarrow> nat \<Rightarrow> string list" where
  "extractKeywords e text' limit =
     (if text' = [] then []
      else let processed = preprocessText text';
               words = split (CHR '' '') processed;
               filteredWords = filterTokens e words;
               wordFreq = countAll filteredWords
           in map fst (take limit (sortByCount e (objectEntries wordFreq))))"

definition extractTopics :: "env \<Rightarrow> string \<Rightarrow> nat \<Rightarrow> topic list" where
  "extractTopics e text' numTopics =
     (if text' = [] \<or> trim text' = [] then []
      else let processed = preprocessText text';
               tokens = tokenize e processed;
               significantTokens = filterTokens e tokens;
               terms = listTerms e (join '' '' significantTokens)
           in take numTopics (filter (\<lambda>item. length (term' item) > 2) terms))"

subsection \<open>The explanation of a recommendation\<close>

text \<open>
  \<open>Math.round(x)\<close> is the integer nearest to \<open>x\<close>, a half rounded up; an integer prints
  in decimal notation.
\<close>

fun showNat :: "nat \<Rightarrow> string" where
  "showNat n = (if n < 10 then [''0123456789'' ! n]
                else showNat (n div 10) @ [''0123456789'' ! (n mod 10)])"

declare showNat.simps [simp del]

definition showInt :: "int \<Rightarrow> string" where
  "showInt i = (if i < 0 then CHR ''-'' # showNat (nat (- i)) else showNat (nat i))"

definition mathRound :: "real \<Rightarrow> int" where
  "mathRound x = \<lfloor>x + 1 / 2\<rfloor>"

definition genresOf :: "podcast \<Rightarrow> int list" where
  \<comment> \<open>\<open>podcast.genre_ids || []\<close>\<close>
  "genresOf p = (case genre_ids p of None \<Rightarrow> [] | Some gs \<Rightarrow> gs)"

definition generateMatchReason :: "env \<Rightarrow> podcast \<Rightarrow> podcast \<Rightarrow> real \<Rightarrow> real \<Rightarrow> string" where
  "generateMatchReason e candidate mostSimilarPodcast matchScore topicSimilarity =
     (if orDefault (title mostSimilarPodcast) [] = []
      then ''Match score: '' @ showInt (mathRound (matchScore * 100)) @
           ''%. This podcast matches your listening preferences.''
      else
        let commonGenres =
              filter (\<lambda>g. g \<in> set (genresOf mostSimilarPodcast))
                (firstOccurrences {} (genresOf candidate));
            candidateKeywords = extractKeywords e (orDefault (description candidate) []) 10;
            favoriteKeywords = extractKeywords e (orDefault (description mostSimilarPodcast) []) 10;
            commonKeywords = filter (\<lambda>k. k \<in> set favoriteKeywords) candidateKeywords;
            reason1 = ''Similar to '' @ [CHR 0x22] @ orDefault (title mostSimilarPodcast) [] @
                      [CHR 0x22] @ ''. '';
            reason2 = (if length commonGenres > 0 then reason1 @ ''Shares the same genre. ''
                       else reason1);
            reason3 = (if length commonKeywords > 0
                       then reason2 @ ''Discusses similar topics like '' @
                            join '', '' (take 3 commonKeywords) @ ''. ''
                       else reason2);
            reason4 = (if topicSimilarity > 0.4
                       then reason3 @ ''Strong thematic similarity in content. ''
                       else if topicSimilarity > 0.2
                       then reason3 @ ''Some thematic overlap in content. ''
                       else reason3)
        in if matchScore > 0.85 then reason4 @ ''Very strong content match.''
           else if matchScore > 0.7 then reason4 @ ''Strong content match.''
           else if matchScore > 0.5 then reason4 @ ''Moderate content similarity.''
           else reason4 @ ''Some content similarities.'')"

section \<open>Similarity (similarity.js)\<close>

record weights =
  TITLE :: real
  DESCRIPTION :: real
  PUBLISHER :: real
  TOPIC_MATCH :: real

definition WEIGHTS :: weights where
  "WEIGHTS = \<lparr>TITLE = 2.0, DESCRIPTION = 3.0, PUBLISHER = 0.5, TOPIC_MATCH = 1.5\<rparr>"

definition calculateCosineSimilarity :: "real list \<Rightarrow> real list \<Rightarrow> real" where
  "calculateCosineSimilarity vec1 vec2 =
     (if length vec1 = 0 \<or> length vec2 = 0 \<or> length vec1 \<noteq> length vec2 then 0
      else
        let dotProduct = foldl (\<lambda>sum ab. sum + fst ab * snd ab) 0 (zip vec1 vec2);
            magnitudeA = sqrt (foldl (\<lambda>sum a. sum + a * a) 0 vec1);
            magnitudeB = sqrt (foldl (\<lambda>sum b. sum + b * b) 0 vec2)
        in if magnitudeA = 0 \<or> magnitudeB = 0 then 0
           else dotProduct / (magnitudeA * magnitudeB))"

subsection \<open>Cosine similarity in double precision\<close>
















text \<open>
  \<open>new Map(entries)\<close>: a key keeps the place of its first entry and the value of its
  last one.
\<close>

definition newMap :: "('k \<times> 'v) list \<Rightarrow> ('k \<times> 'v) list" where
  "newMap entries = foldl (\<lambda>m kv. AList.update (fst kv) (snd kv) m) [] entries"

definition calculateTopicSimilarity :: "topic list \<Rightarrow> topic list \<Rightarrow> real" where
  "calculateTopicSimilarity topicsA topicsB =
     (if length topicsA = 0 \<or> length topicsB = 0 then 0
      else
        let topicMapA = newMap (map (\<lambda>t. (term' t, score t)) topicsA);
            topicMapB = newMap (map (\<lambda>t. (term' t, score t)) topicsB);
            totals = foldl (\<lambda>acc entry.
                      ((case map_of topicMapB (fst entry) of
                          Some scoreB \<Rightarrow> fst acc + min (snd entry) scoreB
                        | None \<Rightarrow> fst acc),
                       snd acc + snd entry))
                    (0, 0) topicMapA;
            matchScore = fst totals;
            totalPossibleScore = snd totals
        in if totalPossibleScore > 0 then matchScore / totalPossibleScore else 0)"

definition createWeightedText :: "podcast \<Rightarrow> string" where
  "createWeightedText p =
     (let title' = orDefault (orElse (title p) (title_original p)) [];
          description' = orDefault (orElse (description p) (description_original p)) [];
          publisher' = orDefault (orElse (publisher p) (publisher_original p)) []
      in title' @ '' '' @ title' @ '' '' @ description' @ '' '' @ description' @ '' '' @
         description' @ '' '' @ publisher')"

section \<open>Search queries (search-util.js)\<close>

record query =
  q :: string
  type :: string
  sort_by_date :: nat
  page_size :: nat
  only_in :: string
  safe_mode :: nat

definition contentQuery :: "string \<Rightarrow> query" where
  \<comment> \<open>the object literal pushed by each of the three strategies\<close>
  "contentQuery k = \<lparr>q = k, type = ''podcast'', sort_by_date = 0, page_size = 20,
                      only_in = ''description'', safe_mode = 0\<rparr>"

text \<open>
  \<open>removeDuplicateQueries\<close> keeps the first query of every key; the key
  \<open>JSON.stringify(query)\<close> is equal for two queries exactly when the queries are.
\<close>

definition removeDuplicateQueries :: "query list \<Rightarrow> query list" where
  "removeDuplicateQueries queries = firstOccurrences {} queries"

text \<open>\<open>s.split(/\s+/)\<close>: the pieces between maximal runs of white space.\<close>

function splitSpaces :: "string \<Rightarrow> string list" where
  "splitSpaces [] = [[]]"
| "splitSpaces (c # cs) =
     (if isSpaceChar c then [] # splitSpaces (dropWhile isSpaceChar cs)
      else (case splitSpaces cs of w # ws \<Rightarrow> (c # w) # ws | [] \<Rightarrow> [[c]]))"
  by pat_completeness auto
termination
  by (relation "measure length") (auto simp: less_Suc_eq_le length_dropWhile_le)

definition extractThemesFromPodcasts :: "env \<Rightarrow> podcast list \<Rightarrow> string list" where
  "extractThemesFromPodcasts e podcasts =
     (let allTopics = concat (map (\<lambda>p. map term' (extractTopics e (descriptionOf p) 10)) podcasts);
          topicFrequency = countAll allTopics
      in map fst (take 3
           (sort_key (\<lambda>kv. - int (countValue (snd kv)))
              (filter (\<lambda>kv. isNum (snd kv) \<and> countValue (snd kv) > 1)
                 (objectEntries topicFrequency)))))"

definition publishersToFilter :: "podcast list \<Rightarrow> string set" where
  "publishersToFilter podcasts =
     set (concat (map (\<lambda>p. splitSpaces (toLowerCase p)) (List.map_filter publisherOf podcasts)))"

definition keywordCandidates :: "env \<Rightarrow> podcast list \<Rightarrow> string list" where
  \<comment> \<open>the constant \<open>keywords\<close> of strategy 2\<close>
  "keywordCandidates e podcasts =
     (let descriptionTexts = join '' '' (map descriptionOf podcasts)
      in filter (\<lambda>kw. kw \<noteq> [] \<and> length kw > 3 \<and>
                       toLowerCase kw \<notin> publishersToFilter podcasts)
           (extractKeywords e descriptionTexts 10))"

definition generateDiverseQueries :: "env \<Rightarrow> podcast list \<Rightarrow> query list" where
  "generateDiverseQueries e podcasts =
     (if podcasts = [] then []
      else
        let themes = extractThemesFromPodcasts e podcasts;
            queries1 = (if length themes > 0 then [contentQuery (themes ! 0)] else []);
            keywords = keywordCandidates e podcasts;
            queries2 = (if length keywords > 0 then queries1 @ [contentQuery (keywords ! 0)]
                        else queries1);
            allQueries = (if length themes > 1 then queries2 @ [contentQuery (themes ! 1)]
                          else queries2)
        in removeDuplicateQueries allQueries)"

section \<open>Recommendations (recommendations.js)\<close>

subsection \<open>Collecting candidates\<close>

text \<open>
  The catalog client, as a parameter: what a request to \<open>best_podcasts\<close> for a genre
  (page size 20, sorted by listen score) and a request to \<open>search\<close> for a query answer.
  \<open>None\<close> is a request that fails or answers without a list. The requests of one call
  of \<open>getCandidatePodcasts\<close> are pairwise different, so a function of the request
  describes every run.
\<close>

record apiClient =
  best_podcasts :: "int \<Rightarrow> podcast list option"
  search :: "query \<Rightarrow> podcast list option"

definition fetchSafely :: "podcast list option \<Rightarrow> podcast list" where
  \<comment> \<open>what one call of \<open>fetchSafely\<close> pushes on \<open>candidates\<close>\<close>
  "fetchSafely response = (case response of None \<Rightarrow> [] | Some results \<Rightarrow> results)"

fun uniqueCandidates :: "string list \<Rightarrow> string set \<Rightarrow> podcast list \<Rightarrow> podcast list" where
  \<comment> \<open>the loop over \<open>candidates\<close>, with \<open>seenIds\<close> as it stands before each element\<close>
  "uniqueCandidates favoriteIds seenIds [] = []"
| "uniqueCandidates favoriteIds seenIds (p # ps) =
     (if podcast_id p \<notin> seenIds \<and> podcast_id p \<notin> set favoriteIds
      then p # uniqueCandidates favoriteIds (insert (podcast_id p) seenIds) ps
      else uniqueCandidates favoriteIds seenIds ps)"

definition getCandidatePodcasts :: "env \<Rightarrow> apiClient \<Rightarrow> podcast list \<Rightarrow> podcast list" where
  "getCandidatePodcasts e api favoritePodcasts =
     (if favoritePodcasts = [] then []
      else
        let genres = firstOccurrences {} (concat (map genresOf favoritePodcasts));
            favoriteIds = map podcast_id favoritePodcasts;
            genresToProcess = take 2 genres;
            candidates1 = concat (map (\<lambda>genreId. fetchSafely (best_podcasts api genreId))
                                     genresToProcess);
            diverseQueries = generateDiverseQueries e favoritePodcasts;
            candidates2 = concat (map (\<lambda>queryParams.
                              fetchSafely (search api (queryParams\<lparr>only_in := ''description''\<rparr>)))
                            diverseQueries)
        in uniqueCandidates favoriteIds {} (candidates1 @ candidates2))"

subsection \<open>Ranking\<close>

record favorite_embedding =
  fav_podcast :: podcast
  embedding :: "real list"
  topics :: "topic list"

text \<open>One entry of \<open>similarities\<close>; its field \<open>score\<close> is named \<open>combinedScore\<close>.\<close>

record similarity =
  favoriteId :: string
  favoritePodcast :: podcast
  semanticScore :: real
  topicScore :: real
  combinedScore :: real

text \<open>
  One entry of \<open>rankedCandidates\<close>. The fields \<open>podcast\<close>, \<open>semanticScore\<close> and
  \<open>topicScore\<close> carry the prefix \<open>rc_\<close>. The two podcast fields are optional because
  \<open>generateRecommendations\<close> tests them.
\<close>

record ranked =
  rc_podcast :: "podcast option"
  similarityScore :: real
  mostSimilarPodcastId :: string
  mostSimilarPodcast :: "podcast option"
  rc_semanticScore :: real
  rc_topicScore :: real
  matchScore :: real

record recommendation =
  rec_podcast :: podcast
  similarity_score :: real
  semantic_score :: real
  topic_score :: real
  reason :: string
  most_similar_to :: string

definition orText :: "string \<Rightarrow> string \<Rightarrow> string" where
  \<comment> \<open>\<open>a || b\<close> on two strings\<close>
  "orText a b = (if a = [] then b else a)"

definition favoriteEmbedding :: "env \<Rightarrow> podcast \<Rightarrow> favorite_embedding" where
  "favoriteEmbedding e p =
     (let weightedText = createWeightedText p;
          description' = descriptionOf p
      in \<lparr>fav_podcast = p,
          embedding = generateEmbedding e (orText weightedText ''podcast content''),
          topics = extractTopics e description' 15\<rparr>)"

definition pairing :: "real list \<Rightarrow> topic list \<Rightarrow> favorite_embedding \<Rightarrow> similarity" where
  \<comment> \<open>the callback of \<open>favoriteEmbeddings.map\<close>\<close>
  "pairing candidateEmbedding candidateTopics fav =
     (let semanticScore' = calculateCosineSimilarity (embedding fav) candidateEmbedding;
          topicScore' = calculateTopicSimilarity (topics fav) candidateTopics;
          combinedScore' = (semanticScore' * 0.7) + (topicScore' * TOPIC_MATCH WEIGHTS * 0.3)
      in \<lparr>favoriteId = podcast_id (fav_podcast fav),
          favoritePodcast = fav_podcast fav,
          semanticScore = semanticScore',
          topicScore = topicScore',
          combinedScore = combinedScore'\<rparr>)"

text \<open>
  The callback of \<open>candidatePodcasts.map\<close>. \<open>similarities[0]\<close> is \<open>hd similarities\<close>:
  \<open>rankCandidates\<close> reaches this point only with a favorite in the list.
\<close>

definition scoreCandidate :: "env \<Rightarrow> favorite_embedding list \<Rightarrow> podcast \<Rightarrow> ranked" where
  "scoreCandidate e favoriteEmbeddings candidate =
     (let weightedText = createWeightedText candidate;
          description' = descriptionOf candidate;
          candidateEmbedding = generateEmbedding e (orText weightedText ''podcast content'');
          candidateTopics = extractTopics e description' 15;
          similarities = map (pairing candidateEmbedding candidateTopics) favoriteEmbeddings;
          avgSimilarity = foldl (\<lambda>sum item. sum + combinedScore item) 0 similarities
                            / real (length similarities);
          mostSimilar = foldl (\<lambda>max' item.
                             if combinedScore item > combinedScore max' then item else max')
                          (hd similarities) similarities
      in \<lparr>rc_podcast = Some candidate,
          similarityScore = avgSimilarity,
          mostSimilarPodcastId = favoriteId mostSimilar,
          mostSimilarPodcast = Some (favoritePodcast mostSimilar),
          rc_semanticScore = semanticScore mostSimilar,
          rc_topicScore = topicScore mostSimilar,
          matchScore = combinedScore mostSimilar\<rparr>)"

text \<open>
  A list argument that may be missing (\<open>undefined\<close> or \<open>null\<close>) is an optional list;
  \<open>!xs?.length\<close> holds when it is missing or empty.
\<close>

definition noLength :: "'a list option \<Rightarrow> bool" where
  "noLength xs = (case xs of None \<Rightarrow> True | Some l \<Rightarrow> length l = 0)"

definition elements :: "'a list option \<Rightarrow> 'a list" where
  "elements xs = (case xs of None \<Rightarrow> [] | Some l \<Rightarrow> l)"

text \<open>
  \<open>.sort((a, b) => b.similarityScore - a.similarityScore)\<close>: a stable sort, highest
  score first.
\<close>

definition rankCandidates :: "env \<Rightarrow> podcast list option \<Rightarrow> podcast list option \<Rightarrow> ranked list" where
  "rankCandidates e favoritePodcasts candidatePodcasts =
     (if noLength favoritePodcasts \<or> noLength candidatePodcasts then []
      else
        let favoriteEmbeddings = map (favoriteEmbedding e) (elements favoritePodcasts);
            rankedCandidates = map (scoreCandidate e favoriteEmbeddings)
                                 (elements candidatePodcasts)
        in sort_key (\<lambda>r. - similarityScore r) rankedCandidates)"

subsection \<open>The recommendations\<close>

definition recommend :: "env \<Rightarrow> ranked \<Rightarrow> recommendation option" where
  \<comment> \<open>the callback of \<open>rankedCandidates.map\<close>; \<open>None\<close> is its \<open>null\<close>\<close>
  "recommend e candidate =
     (case rc_podcast candidate of
        None \<Rightarrow> None
      | Some p \<Rightarrow>
          (case mostSimilarPodcast candidate of
             None \<Rightarrow> None
           | Some m \<Rightarrow>
               Some \<lparr>rec_podcast = p,
                     similarity_score = matchScore candidate,
                     semantic_score = rc_semanticScore candidate,
                     topic_score = rc_topicScore candidate,
                     reason = generateMatchReason e p m (rc_semanticScore candidate)
                                (rc_topicScore candidate),
                     most_similar_to = mostSimilarPodcastId candidate\<rparr>))"

text \<open>
  With podcasts that are objects no statement of the \<open>try\<close> block throws, so the
  \<open>catch\<close> branch (which returns the empty list) has no counterpart in the model.
\<close>

definition generateRecommendations ::
  "env \<Rightarrow> podcast list option \<Rightarrow> podcast list option \<Rightarrow> recommendation list" where
  "generateRecommendations e favorites candidates =
     (if noLength favorites \<or> noLength candidates then []
      else
        let rankedCandidates = rankCandidates e favorites candidates
        in if length rankedCandidates = 0 then []
           else take 10 (List.map_filter (recommend e) rankedCandidates))"

section \<open>Notions used to state the properties\<close>




text \<open>
  The scores of a favorite \<open>f\<close> and a candidate \<open>c\<close>, from the embedding and the topics
  that \<open>rankCandidates\<close> computes for each: the semantic score, the topic score, their
  combined score, and the mean of the combined scores over a list of favorites.
\<close>

definition semanticOf :: "env \<Rightarrow> podcast \<Rightarrow> podcast \<Rightarrow> real" where
  "semanticOf e f c =
     calculateCosineSimilarity
       (generateEmbedding e (orText (createWeightedText f) ''podcast content''))
       (generateEmbedding e (orText (createWeightedText c) ''podcast content''))"

definition topicOf :: "env \<Rightarrow> podcast \<Rightarrow> podcast \<Rightarrow> real" where
  "topicOf e f c =
     calculateTopicSimilarity (extractTopics e (descriptionOf f) 15)
       (extractTopics e (descriptionOf c) 15)"

definition combinedOf :: "env \<Rightarrow> podcast \<Rightarrow> podcast \<Rightarrow> real" where
  "combinedOf e f c = semanticOf e f c * 0.7 + topicOf e f c * 1.5 * 0.3"

definition meanCombined :: "env \<Rightarrow> podcast list \<Rightarrow> podcast \<Rightarrow> real" where
  "meanCombined e favs c = (\<Sum>f\<leftarrow>favs. combinedOf e f c) / real (length favs)"

text \<open>
  Two ways to exclude a keyword because of the publishers of the favorites: the keyword
  is, in lower case, the whole name of a publisher, or it is one of the words of the name.
  \<open>keywordsBy\<close> is the list of the ten most frequent keywords of the joined
  descriptions without the short and the excluded ones.
\<close>

definition isPublisherName :: "podcast list \<Rightarrow> string \<Rightarrow> bool" where
  "isPublisherName podcasts kw =
     list_ex (\<lambda>p. case publisherOf p of
                     Some name \<Rightarrow> toLowerCase kw = toLowerCase name
                   | None \<Rightarrow> False) podcasts"

definition isPublisherWord :: "podcast list \<Rightarrow> string \<Rightarrow> bool" where
  "isPublisherWord podcasts kw =
     list_ex (\<lambda>p. case publisherOf p of
                     Some name \<Rightarrow> toLowerCase kw \<in> set (splitSpaces (toLowerCase name))
                   | None \<Rightarrow> False) podcasts"

definition keywordsBy :: "(podcast list \<Rightarrow> string \<Rightarrow> bool) \<Rightarrow> env \<Rightarrow> podcast list \<Rightarrow> string list" where
  "keywordsBy excluded e podcasts =
     filter (\<lambda>kw. length kw > 3 \<and> \<not> excluded podcasts kw)
       (extractKeywords e (join '' '' (map descriptionOf podcasts)) 10)"

text \<open>
  A text in which every white-space character is a single space between two other
  characters or at an end, and a text with no white space at either end.
\<close>

fun spaced :: "string \<Rightarrow> bool" where
  "spaced [] = True"
| "spaced (c # cs) =
     ((isSpaceChar c \<longrightarrow> c = CHR '' '' \<and> (cs \<noteq> [] \<longrightarrow> \<not> isSpaceChar (hd cs))) \<and> spaced cs)"

definition trimmed :: "string \<Rightarrow> bool" where
  "trimmed s = (s = [] \<or> (\<not> isSpaceChar (hd s) \<and> \<not> isSpaceChar (last s)))"

section \<open>Concrete inputs\<close>



text \<open>
  An environment whose embedding depends on the first letter of the weighted text, which
  starts with the title: \<open>a\<close> and \<open>x\<close> point one way, \<open>b\<close> the orthogonal way,
  every other letter in between. Podcasts with a title only have no topics.
\<close>

definition embeddingByInitial :: "string \<Rightarrow> real list" where
  "embeddingByInitial s =
     (case s of
        [] \<Rightarrow> replicate 384 0
      | c # cs \<Rightarrow> if c = CHR ''a'' \<or> c = CHR ''x'' then [1, 0]
                else if c = CHR ''b'' then [0, 1] else [3, 4])"

definition env1 :: env where
  "env1 = \<lparr>stopwords = [''the'', ''and'', ''of''],
           tokenize = split (CHR '' ''),
           listTerms = (\<lambda>doc. []),
           generateEmbedding = embeddingByInitial,
           engineSort = (\<lambda>entries. entries)\<rparr>"

definition titled :: "string \<Rightarrow> string \<Rightarrow> podcast" where
  "titled i t = \<lparr>podcast_id = i, title = Some t, title_original = None, description = None,
                 description_original = None, publisher = None, publisher_original = None,
                 genre_ids = None\<rparr>"

definition favorites1 :: "podcast list" where
  "favorites1 = [titled ''fa'' ''a'', titled ''fb'' ''b'']"

definition candidates1 :: "podcast list" where
  "candidates1 = [titled ''cx'' ''x'', titled ''cy'' ''y'']"

text \<open>Three favorites of which the second and the third tie on a candidate titled \<open>a\<close>.\<close>

definition favorites2 :: "podcast list" where
  "favorites2 = [titled ''fb'' ''b'', titled ''fa'' ''a'', titled ''fx'' ''x'']"

definition candidates2 :: "podcast list" where
  "candidates2 = [titled ''ca'' ''a'']"

text \<open>
  A second environment, with a tokenizer that splits at spaces and a term list that
  weighs every word by its number of occurrences; two favorites with a publisher and a
  description; and a catalog that answers genre 67 and the search for \<open>stories\<close> with
  lists that overlap and that hold the favorites.
\<close>

definition termCounts :: "string \<Rightarrow> topic list" where
  "termCounts doc =
     map (\<lambda>kv. \<lparr>term' = fst kv, score = real (countValue (snd kv))\<rparr>)
       (sort_key (\<lambda>kv. - int (countValue (snd kv)))
          (countAll (filter (\<lambda>w. w \<noteq> []) (split (CHR '' '') doc))))"

definition env2 :: env where
  "env2 = \<lparr>stopwords = [''the'', ''and'', ''of''],
           tokenize = (\<lambda>s. filter (\<lambda>w. w \<noteq> []) (split (CHR '' '') s)),
           listTerms = termCounts,
           generateEmbedding = embeddingByInitial,
           engineSort = (\<lambda>entries. entries)\<rparr>"

definition gimletShow :: podcast where
  "gimletShow = \<lparr>podcast_id = ''g1'', title = Some ''Story Hour'', title_original = None,
                 description = Some ''Gimlet gimlet stories'', description_original = None,
                 publisher = Some ''Gimlet Media'', publisher_original = None,
                 genre_ids = Some [67]\<rparr>"

definition crimeShow :: podcast where
  "crimeShow = \<lparr>podcast_id = ''c1'', title = Some ''Cold Cases'', title_original = None,
                description = Some ''True crime stories and crime history'',
                description_original = None,
                publisher = Some ''Crime Network'', publisher_original = None,
                genre_ids = Some [135, 67]\<rparr>"

definition catalogShow :: "string \<Rightarrow> podcast" where
  "catalogShow i = \<lparr>podcast_id = i, title = Some ''Catalog Show'', title_original = None,
                    description = None, description_original = None,
                    publisher = None, publisher_original = None, genre_ids = None\<rparr>"

definition api1 :: apiClient where
  "api1 = \<lparr>best_podcasts = (\<lambda>genreId. if genreId = 67
                                then Some [catalogShow ''p1'', catalogShow ''g1'', catalogShow ''p2'']
                                else None),
           search = (\<lambda>query. if q query = ''stories''
                               then Some [catalogShow ''p2'', catalogShow ''p3'', catalogShow ''c1'']
                               else Some [catalogShow ''p1'', catalogShow ''p4''])\<rparr>"

section \<open>Properties of the similarity functions\<close>

subsection \<open>Cosine similarity\<close>















subsection \<open>Topic similarity\<close>












section \<open>Properties of the ranking\<close>

lemma foldl_add_scores:
  "foldl (\<lambda>sum item. sum + g item) (s :: real) xs = s + sum_list (map g xs)"
  by (induction xs arbitrary: s) (auto simp: add.assoc)

lemma foldl_max_snoc_invariant:
  fixes g :: "'a \<Rightarrow> real"
  shows "\<exists>i<length (x # xs).
           foldl (\<lambda>m item. if g item > g m then item else m) x xs = (x # xs) ! i \<and>
           (\<forall>j<length (x # xs). g ((x # xs) ! j) \<le> g ((x # xs) ! i)) \<and>
           (\<forall>j<i. g ((x # xs) ! j) < g ((x # xs) ! i))"
proof (induction xs rule: rev_induct)
  case Nil
  then show ?case by simp
next
  case (snoc y xs)
  let ?step = "\<lambda>m item. if g item > g m then item else m"
  obtain i where i: "i < length (x # xs)" "foldl ?step x xs = (x # xs) ! i"
    "\<forall>j<length (x # xs). g ((x # xs) ! j) \<le> g ((x # xs) ! i)"
    "\<forall>j<i. g ((x # xs) ! j) < g ((x # xs) ! i)"
    using snoc.IH by blast
  have app: "x # xs @ [y] = (x # xs) @ [y]" by simp
  show ?case
  proof (cases "g y > g ((x # xs) ! i)")
    case True
    have "foldl ?step x (xs @ [y]) = y" using True i(2) by simp
    moreover have "(x # xs @ [y]) ! length (x # xs) = y"
      unfolding app by (simp only: nth_append_length)
    moreover have "\<forall>j<length (x # xs @ [y]). g ((x # xs @ [y]) ! j) \<le> g y"
    proof (intro allI impI)
      fix j assume "j < length (x # xs @ [y])"
      then consider "j < length (x # xs)" | "j = length (x # xs)" by fastforce
      then show "g ((x # xs @ [y]) ! j) \<le> g y"
      proof cases
        case 1
        then have "(x # xs @ [y]) ! j = (x # xs) ! j" unfolding app by (simp only: nth_append if_True)
        then show ?thesis using i(3) 1 True by fastforce
      next
        case 2
        then show ?thesis unfolding app by (simp only: nth_append_length)
      qed
    qed
    moreover have "\<forall>j<length (x # xs). g ((x # xs @ [y]) ! j) < g y"
    proof (intro allI impI)
      fix j assume 1: "j < length (x # xs)"
      then have "(x # xs @ [y]) ! j = (x # xs) ! j" unfolding app by (simp only: nth_append if_True)
      then show "g ((x # xs @ [y]) ! j) < g y" using i(3) 1 True by fastforce
    qed
    ultimately show ?thesis
      by (intro exI [of _ "length (x # xs)"]) simp
  next
    case False
    have r: "foldl ?step x (xs @ [y]) = (x # xs) ! i" using False i(2) by simp
    have nth: "\<And>j. j < length (x # xs) \<Longrightarrow> (x # xs @ [y]) ! j = (x # xs) ! j"
      unfolding app by (simp only: nth_append if_True)
    have last: "(x # xs @ [y]) ! length (x # xs) = y"
      unfolding app by (simp only: nth_append_length)
    have "\<forall>j<length (x # xs @ [y]). g ((x # xs @ [y]) ! j) \<le> g ((x # xs) ! i)"
    proof (intro allI impI)
      fix j assume "j < length (x # xs @ [y])"
      then consider "j < length (x # xs)" | "j = length (x # xs)" by fastforce
      then show "g ((x # xs @ [y]) ! j) \<le> g ((x # xs) ! i)"
      proof cases
        case 1
        then show ?thesis using i(3) nth by simp
      next
        case 2
        then show ?thesis using False last by simp
      qed
    qed
    moreover have "\<forall>j<i. g ((x # xs @ [y]) ! j) < g ((x # xs) ! i)"
      using i(1,4) nth by simp
    ultimately show ?thesis
      using i(1) r nth [OF i(1)] by (intro exI [of _ i]) simp
  qed
qed

lemma foldl_max_first:
  fixes g :: "'a \<Rightarrow> real"
  assumes "xs \<noteq> []"
  shows "\<exists>i<length xs.
           foldl (\<lambda>m item. if g item > g m then item else m) (hd xs) xs = xs ! i \<and>
           (\<forall>j<length xs. g (xs ! j) \<le> g (xs ! i)) \<and>
           (\<forall>j<i. g (xs ! j) < g (xs ! i))"
proof -
  obtain x ys where xs: "xs = x # ys" using assms by (cases xs) auto
  have "foldl (\<lambda>m item. if g item > g m then item else m) (hd xs) xs =
        foldl (\<lambda>m item. if g item > g m then item else m) x ys"
    by (simp add: xs)
  then show ?thesis using foldl_max_snoc_invariant [of x ys g] by (simp only: xs)
qed

lemma sqrt_25: "sqrt 25 = 5"
  by (simp add: real_sqrt_unique)

lemma pairing_favoriteEmbedding:
  "pairing (generateEmbedding e (orText (createWeightedText c) ''podcast content''))
     (extractTopics e (descriptionOf c) 15) (favoriteEmbedding e f) =
   \<lparr>favoriteId = podcast_id f, favoritePodcast = f, semanticScore = semanticOf e f c,
    topicScore = topicOf e f c, combinedScore = combinedOf e f c\<rparr>"
  by (simp add: pairing_def favoriteEmbedding_def Let_def semanticOf_def topicOf_def
      combinedOf_def WEIGHTS_def)

lemma scoreCandidate_characterisation:
  assumes "favs \<noteq> []"
  shows "rc_podcast (scoreCandidate e (map (favoriteEmbedding e) favs) c) = Some c \<and>
         similarityScore (scoreCandidate e (map (favoriteEmbedding e) favs) c) =
           meanCombined e favs c \<and>
         (\<exists>i<length favs.
            mostSimilarPodcastId (scoreCandidate e (map (favoriteEmbedding e) favs) c) =
              podcast_id (favs ! i) \<and>
            mostSimilarPodcast (scoreCandidate e (map (favoriteEmbedding e) favs) c) =
              Some (favs ! i) \<and>
            rc_semanticScore (scoreCandidate e (map (favoriteEmbedding e) favs) c) =
              semanticOf e (favs ! i) c \<and>
            rc_topicScore (scoreCandidate e (map (favoriteEmbedding e) favs) c) =
              topicOf e (favs ! i) c \<and>
            matchScore (scoreCandidate e (map (favoriteEmbedding e) favs) c) =
              combinedOf e (favs ! i) c \<and>
            (\<forall>j<length favs. combinedOf e (favs ! j) c \<le> combinedOf e (favs ! i) c) \<and>
            (\<forall>j<i. combinedOf e (favs ! j) c < combinedOf e (favs ! i) c))"
proof -
  define sims where
    "sims = map (\<lambda>f. \<lparr>favoriteId = podcast_id f, favoritePodcast = f,
                       semanticScore = semanticOf e f c, topicScore = topicOf e f c,
                       combinedScore = combinedOf e f c\<rparr>) favs"
  have sims_eq:
    "map (pairing (generateEmbedding e (orText (createWeightedText c) ''podcast content''))
            (extractTopics e (descriptionOf c) 15)) (map (favoriteEmbedding e) favs) = sims"
    by (simp add: sims_def pairing_favoriteEmbedding comp_def)
  have len: "length sims = length favs" by (simp add: sims_def)
  have ne: "sims \<noteq> []" using assms by (simp add: sims_def)
  have nth: "\<And>j. j < length favs \<Longrightarrow> combinedScore (sims ! j) = combinedOf e (favs ! j) c"
    by (simp add: sims_def)
  define best where
    "best = foldl (\<lambda>m item. if combinedScore item > combinedScore m then item else m)
              (hd sims) sims"
  have sc: "scoreCandidate e (map (favoriteEmbedding e) favs) c =
      \<lparr>rc_podcast = Some c,
       similarityScore = foldl (\<lambda>sum item. sum + combinedScore item) 0 sims / real (length sims),
       mostSimilarPodcastId = favoriteId best,
       mostSimilarPodcast = Some (favoritePodcast best),
       rc_semanticScore = semanticScore best,
       rc_topicScore = topicScore best,
       matchScore = combinedScore best\<rparr>"
    unfolding scoreCandidate_def Let_def sims_eq best_def by simp
  have mean: "foldl (\<lambda>sum item. sum + combinedScore item) 0 sims / real (length sims) =
              meanCombined e favs c"
    by (simp add: foldl_add_scores meanCombined_def sims_def comp_def)
  obtain i where i: "i < length sims" "best = sims ! i"
    "\<forall>j<length sims. combinedScore (sims ! j) \<le> combinedScore (sims ! i)"
    "\<forall>j<i. combinedScore (sims ! j) < combinedScore (sims ! i)"
    using foldl_max_first [OF ne, of combinedScore] unfolding best_def by blast
  have bi: "best = \<lparr>favoriteId = podcast_id (favs ! i), favoritePodcast = favs ! i,
                     semanticScore = semanticOf e (favs ! i) c,
                     topicScore = topicOf e (favs ! i) c,
                     combinedScore = combinedOf e (favs ! i) c\<rparr>"
    using i(1,2) by (simp add: sims_def)
  have le: "\<forall>j<length favs. combinedOf e (favs ! j) c \<le> combinedOf e (favs ! i) c"
    using i(1,3) nth len by simp
  have lt: "\<forall>j<i. combinedOf e (favs ! j) c < combinedOf e (favs ! i) c"
    using i(1,4) nth len by simp
  show ?thesis
    unfolding sc mean using i(1) len le lt
    by (simp add: bi) (intro exI [of _ i], simp)
qed

lemma rankCandidates_nonempty:
  assumes "favs \<noteq> []" "cands \<noteq> []"
  shows "rankCandidates e (Some favs) (Some cands) =
           sort_key (\<lambda>r. - similarityScore r)
             (map (scoreCandidate e (map (favoriteEmbedding e) favs)) cands)"
  using assms by (simp add: rankCandidates_def noLength_def elements_def)

lemma weighted_titled: "createWeightedText (titled i t) = t @ '' '' @ t @ ''    ''"
  by (simp add: createWeightedText_def titled_def orElse_def orDefault_def)

lemma description_titled: "descriptionOf (titled i t) = []"
  by (simp add: descriptionOf_def titled_def orElse_def orDefault_def)

lemma semantic1:
  "semanticOf env1 (titled ''fa'' ''a'') (titled ''cx'' ''x'') = 1"
  "semanticOf env1 (titled ''fb'' ''b'') (titled ''cx'' ''x'') = 0"
  "semanticOf env1 (titled ''fa'' ''a'') (titled ''cy'' ''y'') = 3 / 5"
  "semanticOf env1 (titled ''fb'' ''b'') (titled ''cy'' ''y'') = 4 / 5"
  by (simp_all add: semanticOf_def weighted_titled orText_def env1_def embeddingByInitial_def
      calculateCosineSimilarity_def sqrt_25)

lemma topic1: "topicOf env1 (titled i t) (titled j u) = 0"
  by (simp add: topicOf_def description_titled extractTopics_def calculateTopicSimilarity_def)

text \<open>
  C2. With a favorite and a candidate in the lists: the combined score of a pairing is
  \<open>semanticScore * 0.7 + topicScore * 1.5 * 0.3\<close>; \<open>rankCandidates\<close> returns one entry
  for each candidate; the \<open>similarityScore\<close> of the entry of candidate \<open>c\<close> is the
  arithmetic mean of the combined scores of \<open>c\<close> with all favorites, and its
  \<open>semanticScore\<close>, \<open>topicScore\<close> and \<open>matchScore\<close> are those of one favorite whose
  combined score with \<open>c\<close> is the highest.
\<close>

theorem rankCandidates_scores:
  assumes "favs \<noteq> []" and "cands \<noteq> []"
  shows "combinedScore (pairing ce ct fav) =
           calculateCosineSimilarity (embedding fav) ce * 0.7 +
           calculateTopicSimilarity (topics fav) ct * 1.5 * 0.3 \<and>
         mset (map rc_podcast (rankCandidates e (Some favs) (Some cands))) =
           mset (map Some cands) \<and>
         (\<forall>r\<in>set (rankCandidates e (Some favs) (Some cands)).
            \<exists>c\<in>set cands. rc_podcast r = Some c \<and>
              similarityScore r = (\<Sum>f\<leftarrow>favs. combinedOf e f c) / real (length favs) \<and>
              (\<exists>f\<in>set favs.
                 (\<forall>f'\<in>set favs. combinedOf e f' c \<le> combinedOf e f c) \<and>
                 rc_semanticScore r = semanticOf e f c \<and>
                 rc_topicScore r = topicOf e f c \<and>
                 matchScore r = combinedOf e f c))"
proof (intro conjI ballI)
  show "combinedScore (pairing ce ct fav) =
           calculateCosineSimilarity (embedding fav) ce * 0.7 +
           calculateTopicSimilarity (topics fav) ct * 1.5 * 0.3"
    by (simp add: pairing_def Let_def WEIGHTS_def)
next
  have "map rc_podcast (map (scoreCandidate e (map (favoriteEmbedding e) favs)) cands) =
        map Some cands"
    using scoreCandidate_characterisation [OF assms(1), of e] by (simp add: comp_def)
  then show "mset (map rc_podcast (rankCandidates e (Some favs) (Some cands))) =
        mset (map Some cands)"
    unfolding rankCandidates_nonempty [OF assms]
    by (metis mset_map mset_sort)
next
  fix r assume "r \<in> set (rankCandidates e (Some favs) (Some cands))"
  then obtain c where c: "c \<in> set cands"
    "r = scoreCandidate e (map (favoriteEmbedding e) favs) c"
    unfolding rankCandidates_nonempty [OF assms] by auto
  obtain i where i: "i < length favs"
    "rc_semanticScore r = semanticOf e (favs ! i) c"
    "rc_topicScore r = topicOf e (favs ! i) c"
    "matchScore r = combinedOf e (favs ! i) c"
    "\<forall>j<length favs. combinedOf e (favs ! j) c \<le> combinedOf e (favs ! i) c"
    using scoreCandidate_characterisation [OF assms(1), of e c] unfolding c(2) by blast
  have "\<forall>f'\<in>set favs. combinedOf e f' c \<le> combinedOf e (favs ! i) c"
    using i(5) by (auto simp: in_set_conv_nth)
  moreover have "favs ! i \<in> set favs" using i(1) by simp
  moreover have "rc_podcast r = Some c" "similarityScore r = meanCombined e favs c"
    using scoreCandidate_characterisation [OF assms(1), of e c] unfolding c(2) by simp_all
  ultimately show "\<exists>c\<in>set cands. rc_podcast r = Some c \<and>
              similarityScore r = (\<Sum>f\<leftarrow>favs. combinedOf e f c) / real (length favs) \<and>
              (\<exists>f\<in>set favs.
                 (\<forall>f'\<in>set favs. combinedOf e f' c \<le> combinedOf e f c) \<and>
                 rc_semanticScore r = semanticOf e f c \<and>
                 rc_topicScore r = topicOf e f c \<and>
                 matchScore r = combinedOf e f c)"
    using c(1) i(2,3,4) unfolding meanCombined_def by blast
qed


lemma combined1:
  "combinedOf env1 (titled ''fa'' ''a'') (titled ''cx'' ''x'') = 7 / 10"
  "combinedOf env1 (titled ''fb'' ''b'') (titled ''cx'' ''x'') = 0"
  "combinedOf env1 (titled ''fa'' ''a'') (titled ''cy'' ''y'') = 21 / 50"
  "combinedOf env1 (titled ''fb'' ''b'') (titled ''cy'' ''y'') = 14 / 25"
  by (simp_all add: combinedOf_def semantic1 topic1)

lemma scoreCandidate_x:
  "scoreCandidate env1 (map (favoriteEmbedding env1) favorites1) (titled ''cx'' ''x'') =
     \<lparr>rc_podcast = Some (titled ''cx'' ''x''), similarityScore = 7 / 20,
      mostSimilarPodcastId = ''fa'', mostSimilarPodcast = Some (titled ''fa'' ''a''),
      rc_semanticScore = 1, rc_topicScore = 0, matchScore = 7 / 10\<rparr>"
  unfolding scoreCandidate_def Let_def favorites1_def
  by (simp add: pairing_favoriteEmbedding combined1 semantic1 topic1) (simp add: titled_def)

lemma scoreCandidate_y:
  "scoreCandidate env1 (map (favoriteEmbedding env1) favorites1) (titled ''cy'' ''y'') =
     \<lparr>rc_podcast = Some (titled ''cy'' ''y''), similarityScore = 49 / 100,
      mostSimilarPodcastId = ''fb'', mostSimilarPodcast = Some (titled ''fb'' ''b''),
      rc_semanticScore = 4 / 5, rc_topicScore = 0, matchScore = 14 / 25\<rparr>"
  unfolding scoreCandidate_def Let_def favorites1_def
  by (simp add: pairing_favoriteEmbedding combined1 semantic1 topic1) (simp add: titled_def)

lemma rankCandidates1:
  "rankCandidates env1 (Some favorites1) (Some candidates1) =
     [\<lparr>rc_podcast = Some (titled ''cy'' ''y''), similarityScore = 49 / 100,
       mostSimilarPodcastId = ''fb'', mostSimilarPodcast = Some (titled ''fb'' ''b''),
       rc_semanticScore = 4 / 5, rc_topicScore = 0, matchScore = 14 / 25\<rparr>,
      \<lparr>rc_podcast = Some (titled ''cx'' ''x''), similarityScore = 7 / 20,
       mostSimilarPodcastId = ''fa'', mostSimilarPodcast = Some (titled ''fa'' ''a''),
       rc_semanticScore = 1, rc_topicScore = 0, matchScore = 7 / 10\<rparr>]"
proof -
  have "rankCandidates env1 (Some favorites1) (Some candidates1) =
        sort_key (\<lambda>r. - similarityScore r)
          (map (scoreCandidate env1 (map (favoriteEmbedding env1) favorites1)) candidates1)"
    by (rule rankCandidates_nonempty) (simp_all add: favorites1_def candidates1_def)
  then show ?thesis
    by (simp add: candidates1_def scoreCandidate_x scoreCandidate_y)
qed

theorem rankCandidates_scores_witness:
  "favorites1 \<noteq> [] \<and> candidates1 \<noteq> [] \<and>
   mset (map rc_podcast (rankCandidates env1 (Some favorites1) (Some candidates1))) =
     mset (map Some candidates1) \<and>
   map similarityScore (rankCandidates env1 (Some favorites1) (Some candidates1)) =
     [49 / 100, 7 / 20] \<and>
   map matchScore (rankCandidates env1 (Some favorites1) (Some candidates1)) =
     [14 / 25, 7 / 10]"
proof -
  have ne: "favorites1 \<noteq> []" "candidates1 \<noteq> []"
    by (simp_all add: favorites1_def candidates1_def)
  show ?thesis
    using rankCandidates_scores [OF ne, of "[]" "[]" "favoriteEmbedding env1 (titled ''fa'' ''a'')" env1] ne
    by (simp add: rankCandidates1)
qed

text \<open>
  C10. With a favorite and a candidate in the lists, the best-matching favorite of every
  entry of \<open>rankCandidates\<close> (reported as \<open>mostSimilarPodcastId\<close> and
  \<open>mostSimilarPodcast\<close>, and whose semantic and topic scores the entry carries) is the
  earliest favorite of the list whose combined score with the candidate is the highest:
  no favorite has a higher combined score, and every favorite before it has a strictly
  lower one.
\<close>

theorem best_match_is_earliest:
  assumes "favs \<noteq> []" and "cands \<noteq> []"
    and "r \<in> set (rankCandidates e (Some favs) (Some cands))"
  shows "\<exists>c\<in>set cands. \<exists>i<length favs.
           rc_podcast r = Some c \<and>
           mostSimilarPodcastId r = podcast_id (favs ! i) \<and>
           mostSimilarPodcast r = Some (favs ! i) \<and>
           rc_semanticScore r = semanticOf e (favs ! i) c \<and>
           rc_topicScore r = topicOf e (favs ! i) c \<and>
           (\<forall>j<length favs. combinedOf e (favs ! j) c \<le> combinedOf e (favs ! i) c) \<and>
           (\<forall>j<i. combinedOf e (favs ! j) c < combinedOf e (favs ! i) c)"
proof -
  obtain c where c: "c \<in> set cands"
    "r = scoreCandidate e (map (favoriteEmbedding e) favs) c"
    using assms(3) unfolding rankCandidates_nonempty [OF assms(1,2)] by auto
  show ?thesis
    using scoreCandidate_characterisation [OF assms(1), of e c] c(1) unfolding c(2) by blast
qed

lemma semantic2:
  "semanticOf env1 (titled ''fb'' ''b'') (titled ''ca'' ''a'') = 0"
  "semanticOf env1 (titled ''fa'' ''a'') (titled ''ca'' ''a'') = 1"
  "semanticOf env1 (titled ''fx'' ''x'') (titled ''ca'' ''a'') = 1"
  by (simp_all add: semanticOf_def weighted_titled orText_def env1_def
      embeddingByInitial_def calculateCosineSimilarity_def)

lemma combined2:
  "combinedOf env1 (titled ''fb'' ''b'') (titled ''ca'' ''a'') = 0"
  "combinedOf env1 (titled ''fa'' ''a'') (titled ''ca'' ''a'') = 7 / 10"
  "combinedOf env1 (titled ''fx'' ''x'') (titled ''ca'' ''a'') = 7 / 10"
  by (simp_all add: combinedOf_def topic1 semantic2)

lemma rankCandidates2:
  "map mostSimilarPodcastId (rankCandidates env1 (Some favorites2) (Some candidates2)) = [''fa'']"
proof -
  have "rankCandidates env1 (Some favorites2) (Some candidates2) =
        sort_key (\<lambda>r. - similarityScore r)
          (map (scoreCandidate env1 (map (favoriteEmbedding env1) favorites2)) candidates2)"
    by (rule rankCandidates_nonempty) (simp_all add: favorites2_def candidates2_def)
  then show ?thesis
    unfolding scoreCandidate_def Let_def favorites2_def candidates2_def
    by (simp add: pairing_favoriteEmbedding combined2) (simp add: titled_def)
qed

theorem best_match_is_earliest_witness:
  "favorites2 \<noteq> [] \<and> candidates2 \<noteq> [] \<and>
   map podcast_id favorites2 = [''fb'', ''fa'', ''fx''] \<and>
   map (\<lambda>f. combinedOf env1 f (titled ''ca'' ''a'')) favorites2 = [0, 7 / 10, 7 / 10] \<and>
   map mostSimilarPodcastId (rankCandidates env1 (Some favorites2) (Some candidates2)) = [''fa'']"
proof -
  have ne: "favorites2 \<noteq> []" "candidates2 \<noteq> []"
    by (simp_all add: favorites2_def candidates2_def)
  obtain r where r: "rankCandidates env1 (Some favorites2) (Some candidates2) = [r]"
    using rankCandidates2 by auto
  then have "r \<in> set (rankCandidates env1 (Some favorites2) (Some candidates2))" by simp
  from best_match_is_earliest [OF ne this]
  have "\<exists>i<length favorites2. mostSimilarPodcastId r = podcast_id (favorites2 ! i)" by blast
  moreover have "map podcast_id favorites2 = [''fb'', ''fa'', ''fx'']"
    by (simp add: favorites2_def titled_def)
  moreover have "map (\<lambda>f. combinedOf env1 f (titled ''ca'' ''a'')) favorites2 = [0, 7 / 10, 7 / 10]"
    by (simp add: favorites2_def combined2)
  ultimately show ?thesis
    using ne rankCandidates2 by simp
qed

section \<open>Properties of the recommendations\<close>

lemma map_filter_all_Some:
  "\<forall>x\<in>set xs. f x \<noteq> None \<Longrightarrow> List.map_filter f xs = map (\<lambda>x. the (f x)) xs"
  by (induction xs) (auto simp: map_filter_simps)

lemma recommend_scoreCandidate:
  assumes "favs \<noteq> []"
  shows "\<exists>rec. recommend e (scoreCandidate e (map (favoriteEmbedding e) favs) c) = Some rec \<and>
           rec_podcast rec = c \<and>
           similarity_score rec = matchScore (scoreCandidate e (map (favoriteEmbedding e) favs) c)"
  using scoreCandidate_characterisation [OF assms, of e c]
  by (auto simp: recommend_def)

lemma sorted_wrt_pair: "sorted_wrt P [a, b] = P a b"
  by simp

text \<open>
  C1 as stated fails. With the favorites \<open>favorites1\<close> and the candidates \<open>candidates1\<close>
  the candidate titled \<open>y\<close> has the higher mean (0.49 against 0.35) and comes first, but
  the lower best-pair score (0.56 against 0.7): the sequence of the emitted
  \<open>similarity_score\<close> fields is 0.56, 0.7, which is not descending.
\<close>

theorem recommendations_displayed_score_counterexample:
  "map similarity_score (generateRecommendations env1 (Some favorites1) (Some candidates1)) =
     [14 / 25, 7 / 10] \<and>
   \<not> sorted_wrt (\<lambda>a b. b \<le> a)
       (map similarity_score (generateRecommendations env1 (Some favorites1) (Some candidates1)))"
proof -
  have displayed:
    "map similarity_score (generateRecommendations env1 (Some favorites1) (Some candidates1)) =
     [14 / 25, 7 / 10]"
    by (simp add: generateRecommendations_def noLength_def favorites1_def [symmetric]
        rankCandidates1 map_filter_simps recommend_def)
      (simp add: favorites1_def candidates1_def)
  have "\<not> sorted_wrt (\<lambda>a b. b \<le> a) [14 / 25, 7 / (10::real)]"
    unfolding sorted_wrt_pair by simp
  then show ?thesis unfolding displayed by (intro conjI refl)
qed

text \<open>
  C1, amended. For every non-empty favorites list and non-empty candidates list, the
  sequence returned by \<open>generateRecommendations\<close> has length at most 10, holds the
  podcasts of the first ten entries of \<open>rankCandidates\<close> in their order, and is sorted
  descending by the mean of the candidate's combined scores over all favorites (the
  \<open>similarityScore\<close> of \<open>rankCandidates\<close>, which is not emitted). The emitted
  \<open>similarity_score\<close> is the highest combined score of the candidate with a favorite.
\<close>

theorem recommendations_top_ten_by_mean:
  assumes "favs \<noteq> []" and "cands \<noteq> []"
  shows "length (generateRecommendations e (Some favs) (Some cands)) \<le> 10 \<and>
         map (\<lambda>rec. Some (rec_podcast rec)) (generateRecommendations e (Some favs) (Some cands)) =
           take 10 (map rc_podcast (rankCandidates e (Some favs) (Some cands))) \<and>
         sorted_wrt (\<lambda>a b. meanCombined e favs (rec_podcast b) \<le> meanCombined e favs (rec_podcast a))
           (generateRecommendations e (Some favs) (Some cands)) \<and>
         (\<forall>rec\<in>set (generateRecommendations e (Some favs) (Some cands)).
            \<exists>f\<in>set favs. similarity_score rec = combinedOf e f (rec_podcast rec) \<and>
              (\<forall>f'\<in>set favs. combinedOf e f' (rec_podcast rec) \<le> similarity_score rec))"
proof -
  let ?sc = "scoreCandidate e (map (favoriteEmbedding e) favs)"
  let ?ranked = "rankCandidates e (Some favs) (Some cands)"
  let ?out = "\<lambda>r. the (recommend e r)"
  have ranked: "?ranked = sort_key (\<lambda>r. - similarityScore r) (map ?sc cands)"
    by (rule rankCandidates_nonempty [OF assms])
  have mem: "\<And>r. r \<in> set ?ranked \<Longrightarrow> \<exists>c\<in>set cands. r = ?sc c"
    unfolding ranked by auto
  have some: "\<forall>r\<in>set ?ranked. recommend e r \<noteq> None"
  proof
    fix r assume "r \<in> set ?ranked"
    then obtain c where c: "r = ?sc c" using mem by blast
    obtain rec where "recommend e (?sc c) = Some rec"
      using recommend_scoreCandidate [OF assms(1), of e c] by blast
    then show "recommend e r \<noteq> None" unfolding c by simp
  qed
  have "length ?ranked = length cands"
    unfolding ranked by simp
  then have ne: "?ranked \<noteq> []"
    using assms(2) by auto
  have gen: "generateRecommendations e (Some favs) (Some cands) = take 10 (map ?out ?ranked)"
    using assms ne
    by (simp add: generateRecommendations_def noLength_def Let_def map_filter_all_Some [OF some])
  have pod: "\<And>r. r \<in> set ?ranked \<Longrightarrow> Some (rec_podcast (?out r)) = rc_podcast r"
  proof -
    fix r assume "r \<in> set ?ranked"
    then obtain c where c: "r = ?sc c" using mem by blast
    show "Some (rec_podcast (?out r)) = rc_podcast r"
      using recommend_scoreCandidate [OF assms(1), of e c]
        scoreCandidate_characterisation [OF assms(1), of e c] unfolding c by auto
  qed
  have mean: "\<And>r. r \<in> set ?ranked \<Longrightarrow>
      meanCombined e favs (rec_podcast (?out r)) = similarityScore r"
  proof -
    fix r assume "r \<in> set ?ranked"
    then obtain c where c: "r = ?sc c" using mem by blast
    show "meanCombined e favs (rec_podcast (?out r)) = similarityScore r"
      using recommend_scoreCandidate [OF assms(1), of e c]
        scoreCandidate_characterisation [OF assms(1), of e c] unfolding c by auto
  qed
  have "sorted (map (\<lambda>r. - similarityScore r) ?ranked)"
    unfolding ranked by (rule sorted_sort_key)
  then have "sorted_wrt (\<lambda>a b. similarityScore b \<le> similarityScore a) ?ranked"
    by (simp add: sorted_wrt_map)
  then have "sorted_wrt (\<lambda>a b. meanCombined e favs (rec_podcast (?out b))
                             \<le> meanCombined e favs (rec_podcast (?out a))) ?ranked"
    by (rule sorted_wrt_mono_rel [rotated]) (simp add: mean)
  then have "sorted_wrt (\<lambda>a b. meanCombined e favs (rec_podcast b)
                             \<le> meanCombined e favs (rec_podcast a)) (map ?out ?ranked)"
    by (simp add: sorted_wrt_map)
  then have sorted: "sorted_wrt (\<lambda>a b. meanCombined e favs (rec_podcast b)
                             \<le> meanCombined e favs (rec_podcast a)) (take 10 (map ?out ?ranked))"
    by (rule sorted_wrt_take)
  have "map (\<lambda>r. Some (rec_podcast (?out r))) ?ranked = map rc_podcast ?ranked"
    by (rule map_ext) (simp add: pod)
  moreover have "map (\<lambda>rec. Some (rec_podcast rec)) (take 10 (map ?out ?ranked)) =
              take 10 (map (\<lambda>r. Some (rec_podcast (?out r))) ?ranked)"
    by (simp only: take_map map_map comp_def)
  ultimately have pods: "map (\<lambda>rec. Some (rec_podcast rec)) (take 10 (map ?out ?ranked)) =
              take 10 (map rc_podcast ?ranked)"
    by (simp only:)
  have best: "\<forall>rec\<in>set (take 10 (map ?out ?ranked)).
            \<exists>f\<in>set favs. similarity_score rec = combinedOf e f (rec_podcast rec) \<and>
              (\<forall>f'\<in>set favs. combinedOf e f' (rec_podcast rec) \<le> similarity_score rec)"
  proof
    fix rec assume "rec \<in> set (take 10 (map ?out ?ranked))"
    then have "rec \<in> set (map ?out ?ranked)" by (rule in_set_takeD)
    then obtain r where r: "r \<in> set ?ranked" "rec = ?out r" by auto
    then obtain c where c: "r = ?sc c" using mem by blast
    obtain i where i: "i < length favs" "matchScore (?sc c) = combinedOf e (favs ! i) c"
      "\<forall>j<length favs. combinedOf e (favs ! j) c \<le> combinedOf e (favs ! i) c"
      using scoreCandidate_characterisation [OF assms(1), of e c] by blast
    have rec: "rec_podcast rec = c" "similarity_score rec = matchScore (?sc c)"
      using recommend_scoreCandidate [OF assms(1), of e c] unfolding r(2) c by auto
    have "\<forall>f'\<in>set favs. combinedOf e f' c \<le> combinedOf e (favs ! i) c"
      using i(3) by (auto simp: in_set_conv_nth)
    then show "\<exists>f\<in>set favs. similarity_score rec = combinedOf e f (rec_podcast rec) \<and>
              (\<forall>f'\<in>set favs. combinedOf e f' (rec_podcast rec) \<le> similarity_score rec)"
      using i(1,2) rec by (intro bexI [of _ "favs ! i"]) simp_all
  qed
  show ?thesis
    unfolding gen using sorted pods best by simp
qed

theorem recommendations_top_ten_by_mean_witness:
  "favorites1 \<noteq> [] \<and> candidates1 \<noteq> [] \<and>
   length (generateRecommendations env1 (Some favorites1) (Some candidates1)) \<le> 10 \<and>
   map rec_podcast (generateRecommendations env1 (Some favorites1) (Some candidates1)) =
     [titled ''cy'' ''y'', titled ''cx'' ''x''] \<and>
   map (meanCombined env1 favorites1) [titled ''cy'' ''y'', titled ''cx'' ''x''] = [49 / 100, 7 / 20]"
proof -
  have ne: "favorites1 \<noteq> []" "candidates1 \<noteq> []"
    by (simp_all add: favorites1_def candidates1_def)
  have m: "map (meanCombined env1 favorites1) [titled ''cy'' ''y'', titled ''cx'' ''x''] =
           [49 / 100, 7 / 20]"
    by (simp add: meanCombined_def favorites1_def combined1)
  have "map (\<lambda>rec. Some (rec_podcast rec))
          (generateRecommendations env1 (Some favorites1) (Some candidates1)) =
        [Some (titled ''cy'' ''y''), Some (titled ''cx'' ''x'')]"
    using recommendations_top_ten_by_mean [OF ne, of env1] by (simp add: rankCandidates1)
  then have "map rec_podcast (generateRecommendations env1 (Some favorites1) (Some candidates1)) =
     [titled ''cy'' ''y'', titled ''cx'' ''x'']"
    by (auto simp: map_eq_Cons_conv)
  then show ?thesis
    using recommendations_top_ten_by_mean [OF ne, of env1] ne m by simp
qed

text \<open>
  C9. \<open>generateRecommendations\<close> called with a missing or empty favorites list, or with a
  missing or empty candidates list, returns the empty sequence. (The value is that of the
  guard in front of the \<open>try\<close> block; the model is a total function, so the call returns.)
\<close>

theorem recommendations_empty_inputs:
  "favorites = None \<or> favorites = Some [] \<or> candidates = None \<or> candidates = Some [] \<longrightarrow>
   generateRecommendations e favorites candidates = []"
  by (auto simp: generateRecommendations_def noLength_def)

theorem recommendations_empty_inputs_witness:
  "generateRecommendations env1 None (Some candidates1) = [] \<and>
   generateRecommendations env1 (Some []) (Some candidates1) = [] \<and>
   generateRecommendations env1 (Some favorites1) None = [] \<and>
   generateRecommendations env1 (Some favorites1) (Some []) = [] \<and>
   generateRecommendations env1 None None = []"
  using recommendations_empty_inputs [of None "Some candidates1" env1]
    recommendations_empty_inputs [of "Some []" "Some candidates1" env1]
    recommendations_empty_inputs [of "Some favorites1" None env1]
    recommendations_empty_inputs [of "Some favorites1" "Some []" env1]
    recommendations_empty_inputs [of None None env1]
  by simp

section \<open>Properties of the text processing\<close>

subsection \<open>\<open>preprocessText\<close>\<close>

lemma not_upper_toLowerChar: "\<not> isUpperChar (toLowerChar c)"
  by (auto simp: toLowerChar_def isUpperChar_def Let_def)

lemma toLowerCase_id: "\<forall>c\<in>set s. \<not> isUpperChar c \<Longrightarrow> toLowerCase s = s"
  by (induction s) (auto simp: toLowerCase_def toLowerChar_def)

lemma space_not_upper: "\<not> isUpperChar (CHR '' '')"
  by (simp add: isUpperChar_def)

lemma space_is_space: "isSpaceChar (CHR '' '')"
  by (simp add: isSpaceChar_def)

lemma set_tl_subset: "set (tl xs) \<subseteq> set xs"
  by (cases xs) auto

lemma set_replaceTags: "set (replaceTags s) \<subseteq> insert (CHR '' '') (set s)"
proof (induction s rule: replaceTags.induct)
  case 1
  then show ?case by simp
next
  case (2 c cs)
  let ?rest = "tl (dropWhile (\<lambda>x. x \<noteq> CHR ''>'') cs)"
  have "set ?rest \<subseteq> set (dropWhile (\<lambda>x. x \<noteq> CHR ''>'') cs)"
    by (rule set_tl_subset)
  moreover have "set (dropWhile (\<lambda>x. x \<noteq> CHR ''>'') cs) \<subseteq> set cs"
    using set_dropWhileD by fastforce
  ultimately have sub: "set ?rest \<subseteq> set cs" by (rule subset_trans)
  show ?case
  proof (cases "c = CHR ''<'' \<and> CHR ''>'' \<in> set cs")
    case True
    then have "replaceTags (c # cs) = CHR '' '' # replaceTags ?rest" by simp
    moreover have "set (replaceTags ?rest) \<subseteq> insert (CHR '' '') (set ?rest)"
      using 2(1) True by blast
    ultimately show ?thesis using sub by auto
  next
    case False
    then have "replaceTags (c # cs) = c # replaceTags cs" by auto
    moreover have "set (replaceTags cs) \<subseteq> insert (CHR '' '') (set cs)"
      using 2(2) False by blast
    ultimately show ?thesis by auto
  qed
qed

lemma replaceTags_id: "CHR ''<'' \<notin> set s \<Longrightarrow> replaceTags s = s"
  by (induction s) auto

lemma replaceSpecial_class:
  "\<forall>c\<in>set (replaceSpecial s). isWordChar c \<or> isSpaceChar c"
  by (auto simp: replaceSpecial_def space_is_space)

lemma set_replaceSpecial: "set (replaceSpecial s) \<subseteq> insert (CHR '' '') (set s)"
  by (auto simp: replaceSpecial_def)

lemma replaceSpecial_id:
  "\<forall>c\<in>set s. isWordChar c \<or> isSpaceChar c \<Longrightarrow> replaceSpecial s = s"
  by (induction s) (auto simp: replaceSpecial_def)

lemma set_replaceSpaces: "set (replaceSpaces s) \<subseteq> insert (CHR '' '') (set s)"
proof (induction s rule: replaceSpaces.induct)
  case 1
  then show ?case by simp
next
  case (2 c cs)
  have "set (dropWhile isSpaceChar cs) \<subseteq> set cs" by (auto dest: set_dropWhileD)
  then show ?case using 2 by (auto split: if_splits)
qed

lemma replaceSpaces_Nil: "replaceSpaces s = [] \<longleftrightarrow> s = []"
  by (cases s) auto

lemma hd_replaceSpaces:
  "s \<noteq> [] \<Longrightarrow> \<not> isSpaceChar (hd s) \<Longrightarrow> hd (replaceSpaces s) = hd s"
  by (cases s) auto

lemma spaced_replaceSpaces: "spaced (replaceSpaces s)"
proof (induction s rule: replaceSpaces.induct)
  case 1
  then show ?case by simp
next
  case (2 c cs)
  show ?case
  proof (cases "isSpaceChar c")
    case True
    let ?d = "dropWhile isSpaceChar cs"
    have "?d \<noteq> [] \<Longrightarrow> \<not> isSpaceChar (hd ?d)" by (rule hd_dropWhile)
    then have "replaceSpaces ?d \<noteq> [] \<Longrightarrow> \<not> isSpaceChar (hd (replaceSpaces ?d))"
      by (simp add: replaceSpaces_Nil hd_replaceSpaces)
    then show ?thesis using True 2(1) by simp
  next
    case False
    then show ?thesis using 2(2) by simp
  qed
qed

lemma replaceSpaces_id: "spaced s \<Longrightarrow> replaceSpaces s = s"
proof (induction s rule: replaceSpaces.induct)
  case 1
  then show ?case by simp
next
  case (2 c cs)
  show ?case
  proof (cases "isSpaceChar c")
    case True
    then have c: "c = CHR '' ''" and h: "cs \<noteq> [] \<Longrightarrow> \<not> isSpaceChar (hd cs)" and s: "spaced cs"
      using 2(3) by auto
    have "dropWhile isSpaceChar cs = cs" using h by (cases cs) auto
    then show ?thesis using True c s 2(1) by simp
  next
    case False
    then show ?thesis using 2(2,3) by simp
  qed
qed

lemma spaced_drop: "spaced s \<Longrightarrow> spaced (drop n s)"
proof (induction n arbitrary: s)
  case 0
  then show ?case by simp
next
  case (Suc n)
  then show ?case by (cases s) auto
qed

lemma spaced_take: "spaced s \<Longrightarrow> spaced (take n s)"
proof (induction s arbitrary: n)
  case Nil
  then show ?case by simp
next
  case (Cons c cs)
  show ?case
  proof (cases n)
    case 0
    then show ?thesis by simp
  next
    case (Suc m)
    have "take m cs \<noteq> [] \<Longrightarrow> hd (take m cs) = hd cs \<and> cs \<noteq> []"
      by (cases cs; cases m) auto
    then show ?thesis using Cons Suc by auto
  qed
qed

lemma trim_take_drop:
  "trim s = take (length (dropWhile isSpaceChar s) -
                  length (takeWhile isSpaceChar (rev (dropWhile isSpaceChar s))))
              (drop (length (takeWhile isSpaceChar s)) s)"
proof -
  let ?u = "dropWhile isSpaceChar s"
  have "rev (dropWhile isSpaceChar (rev ?u)) =
        rev (drop (length (takeWhile isSpaceChar (rev ?u))) (rev ?u))"
    by (simp only: dropWhile_eq_drop [symmetric])
  also have "\<dots> = take (length ?u - length (takeWhile isSpaceChar (rev ?u))) ?u"
    by (simp add: rev_drop)
  finally show ?thesis
    unfolding trim_def by (simp add: dropWhile_eq_drop [symmetric])
qed

lemma set_trim: "set (trim s) \<subseteq> set s"
  unfolding trim_take_drop by (meson in_set_dropD in_set_takeD subsetI)

lemma spaced_trim: "spaced s \<Longrightarrow> spaced (trim s)"
  unfolding trim_take_drop by (intro spaced_take spaced_drop)

lemma last_dropWhile: "dropWhile P xs \<noteq> [] \<Longrightarrow> last (dropWhile P xs) = last xs"
  by (induction xs) (auto split: if_splits)

lemma trimmed_trim: "trimmed (trim s)"
proof (cases "trim s = []")
  case True
  then show ?thesis by (simp add: trimmed_def)
next
  case False
  let ?u = "dropWhile isSpaceChar s"
  let ?v = "dropWhile isSpaceChar (rev ?u)"
  have v: "?v \<noteq> []" using False by (simp add: trim_def)
  have "?u = [] \<Longrightarrow> ?v = []" by (simp only: rev.simps dropWhile.simps)
  then have u: "?u \<noteq> []" using v by blast
  have "last (trim s) = hd ?v" using v by (simp add: trim_def last_rev)
  moreover have "\<not> isSpaceChar (hd ?v)" using v by (rule hd_dropWhile)
  moreover have "hd (trim s) = last ?v" using v by (simp add: trim_def hd_rev)
  moreover have "last ?v = last (rev ?u)" using v by (rule last_dropWhile)
  moreover have "last (rev ?u) = hd ?u" using u by (simp add: last_rev)
  moreover have "\<not> isSpaceChar (hd ?u)" using u by (rule hd_dropWhile)
  ultimately show ?thesis by (simp add: trimmed_def)
qed

lemma trim_id: "trimmed s \<Longrightarrow> trim s = s"
proof (cases "s = []")
  case True
  then show ?thesis by (simp add: trim_def)
next
  case False
  assume "trimmed s"
  then have h: "\<not> isSpaceChar (hd s)" and l: "\<not> isSpaceChar (last s)"
    using False by (simp_all add: trimmed_def)
  have "dropWhile isSpaceChar s = s" using h False by (cases s) auto
  moreover have "dropWhile isSpaceChar (rev s) = rev s"
    using l False by (cases "rev s") (auto simp: last_rev [symmetric] hd_rev)
  ultimately show ?thesis by (simp add: trim_def)
qed

lemma less_not_class: "\<not> (isWordChar (CHR ''<'') \<or> isSpaceChar (CHR ''<''))"
  by (simp add: isWordChar_def isSpaceChar_def)

text \<open>
  C6. \<open>preprocessText\<close> is idempotent: for every string \<open>x\<close>,
  \<open>preprocessText(preprocessText(x))\<close> equals \<open>preprocessText(x)\<close>. The result of one
  pass has no upper-case letter, no character outside the word and space classes, single
  spaces only and no space at an end, so every step of a second pass leaves it as it is.
\<close>

theorem preprocessText_idempotent:
  "preprocessText (preprocessText x) = preprocessText x"
proof (cases "x = []")
  case True
  then show ?thesis by (simp add: preprocessText_def)
next
  case False
  let ?l = "toLowerCase x"
  let ?t = "replaceTags ?l"
  let ?s = "replaceSpecial ?t"
  let ?c = "replaceSpaces ?s"
  let ?y = "trim ?c"
  have y: "preprocessText x = ?y" using False by (simp add: preprocessText_def)
  have "\<forall>c\<in>set ?l. \<not> isUpperChar c"
    by (simp add: toLowerCase_def not_upper_toLowerChar)
  then have "\<forall>c\<in>set ?t. \<not> isUpperChar c"
    using set_replaceTags [of ?l] space_not_upper by auto
  then have "\<forall>c\<in>set ?s. \<not> isUpperChar c"
    using set_replaceSpecial [of ?t] space_not_upper by auto
  then have "\<forall>c\<in>set ?c. \<not> isUpperChar c"
    using set_replaceSpaces [of ?s] space_not_upper by auto
  then have lower: "\<forall>c\<in>set ?y. \<not> isUpperChar c"
    using set_trim [of ?c] by auto
  have "\<forall>c\<in>set ?c. isWordChar c \<or> isSpaceChar c"
    using set_replaceSpaces [of ?s] replaceSpecial_class [of ?t] space_is_space by auto
  then have cls: "\<forall>c\<in>set ?y. isWordChar c \<or> isSpaceChar c"
    using set_trim [of ?c] by auto
  then have notag: "CHR ''<'' \<notin> set ?y"
    using less_not_class by blast
  have sp: "spaced ?y" by (intro spaced_trim spaced_replaceSpaces)
  have tr: "trimmed ?y" by (rule trimmed_trim)
  have "preprocessText ?y = ?y"
  proof (cases "?y = []")
    case True
    then show ?thesis by (simp add: preprocessText_def)
  next
    case ne: False
    have "preprocessText ?y =
          trim (replaceSpaces (replaceSpecial (replaceTags (toLowerCase ?y))))"
      using ne by (simp add: preprocessText_def)
    also have "\<dots> = trim (replaceSpaces (replaceSpecial (replaceTags ?y)))"
      by (simp only: toLowerCase_id [OF lower])
    also have "\<dots> = trim (replaceSpaces (replaceSpecial ?y))"
      by (simp only: replaceTags_id [OF notag])
    also have "\<dots> = trim (replaceSpaces ?y)"
      by (simp only: replaceSpecial_id [OF cls])
    also have "\<dots> = trim ?y"
      by (simp only: replaceSpaces_id [OF sp])
    also have "\<dots> = ?y"
      by (rule trim_id [OF tr])
    finally show ?thesis .
  qed
  then show ?thesis unfolding y .
qed

theorem preprocessText_idempotent_witness:
  "preprocessText ''<b>Hello</b>,  World! '' = ''hello world'' \<and>
   preprocessText (preprocessText ''<b>Hello</b>,  World! '') = ''hello world''"
proof -
  have "preprocessText ''<b>Hello</b>,  World! '' = ''hello world''"
    by code_simp
  then show ?thesis
    using preprocessText_idempotent [of "''<b>Hello</b>,  World! ''"] by simp
qed

subsection \<open>\<open>extractKeywords\<close>\<close>

lemma preprocess_cat_dog:
  "preprocessText ''the the the cat cat dog'' = ''the the the cat cat dog''"
  by code_simp

lemma split_cat_dog:
  "split (CHR '' '') ''the the the cat cat dog'' =
     [''the'', ''the'', ''the'', ''cat'', ''cat'', ''dog'']"
  by code_simp

lemma filterTokens_short:
  "\<forall>t\<in>set tokens. length t \<le> 3 \<Longrightarrow> filterTokens e tokens = []"
  by (auto simp: filterTokens_def removeStopwords_def filter_empty_conv)

text \<open>
  C3 as stated fails: \<open>extractKeywords("the the the cat cat dog", 2)\<close> is the empty
  list, not a list of \<open>cat\<close> and \<open>dog\<close>. \<open>filterTokens\<close> keeps only tokens
  longer than 3 characters, and \<open>cat\<close> and \<open>dog\<close> have 3.
\<close>

theorem keywords_cat_dog_counterexample:
  "extractKeywords env2 ''the the the cat cat dog'' 2 = [] \<and>
   set (extractKeywords env2 ''the the the cat cat dog'' 2) \<noteq> {''cat'', ''dog''}"
proof -
  have "extractKeywords env2 ''the the the cat cat dog'' 2 = []"
    by code_simp
  then show ?thesis by simp
qed

text \<open>
  C3, amended. \<open>extractKeywords\<close> applied to the string \<open>the the the cat cat dog\<close> with
  limit 2 returns the empty list, whatever the stop-word list: every token of the string
  has at most 3 characters and is removed by the filter for short words.
\<close>

theorem keywords_cat_dog_empty:
  "extractKeywords e ''the the the cat cat dog'' 2 = []"
proof -
  have "filterTokens e [''the'', ''the'', ''the'', ''cat'', ''cat'', ''dog''] = []"
    by (rule filterTokens_short) simp
  then show ?thesis
    unfolding extractKeywords_def Let_def preprocess_cat_dog split_cat_dog
    by (simp add: countAll_def objectEntries_def sortByCount_def)
qed

theorem keywords_cat_dog_empty_witness:
  "extractKeywords env2 ''the the the cat cat dog'' 2 = [] \<and>
   filter (\<lambda>w. length w > 3) [''the'', ''the'', ''the'', ''cat'', ''cat'', ''dog''] = []"
  using keywords_cat_dog_empty [of env2] by simp

section \<open>Properties of the search queries\<close>

lemma set_firstOccurrences: "set (firstOccurrences seen xs) = set xs - seen"
  by (induction xs arbitrary: seen) auto

lemma keywordCandidates_eq: "keywordCandidates e podcasts = keywordsBy isPublisherWord e podcasts"
proof -
  have "\<And>kw. toLowerCase kw \<in> publishersToFilter podcasts \<longleftrightarrow> isPublisherWord podcasts kw"
    by (auto simp: publishersToFilter_def isPublisherWord_def list_ex_iff map_filter_def
        split: option.splits)
  then show ?thesis
    unfolding keywordCandidates_def keywordsBy_def Let_def
    by (intro filter_cong refl) auto
qed

text \<open>
  C4 as stated fails. The favorite \<open>gimletShow\<close> has the publisher \<open>Gimlet Media\<close> and
  the description \<open>Gimlet gimlet stories\<close>. No keyword equals the publisher's name, so by
  the claim the top keyword \<open>gimlet\<close> survives and is the query; the code removes it,
  as a word of the publisher's name, and emits the query \<open>stories\<close>.
\<close>

theorem keyword_query_counterexample:
  "keywordsBy isPublisherName env2 [gimletShow] = [''gimlet'', ''stories''] \<and>
   map q (generateDiverseQueries env2 [gimletShow]) = [''stories'']"
  by (intro conjI; code_simp)

text \<open>
  C4, amended. In \<open>generateDiverseQueries\<close>, the keyword-based query (strategy 2) is
  built from the top-10 keywords of the concatenated favorite descriptions after removing
  every keyword of length at most 3 and every keyword that is equal, in lower case, to one
  of the white-space separated words of a favorite's lower-cased publisher name; if any
  keyword survives, a query whose \<open>q\<close> is the top surviving keyword is emitted.
\<close>

theorem keyword_query_emitted:
  "podcasts \<noteq> [] \<and> keywordsBy isPublisherWord e podcasts \<noteq> [] \<longrightarrow>
   contentQuery (hd (keywordsBy isPublisherWord e podcasts)) \<in> set (generateDiverseQueries e podcasts)"
proof
  assume a: "podcasts \<noteq> [] \<and> keywordsBy isPublisherWord e podcasts \<noteq> []"
  then have k: "keywordCandidates e podcasts \<noteq> []" by (simp add: keywordCandidates_eq)
  then have "keywordCandidates e podcasts ! 0 = hd (keywordsBy isPublisherWord e podcasts)"
    by (simp add: keywordCandidates_eq hd_conv_nth)
  then show "contentQuery (hd (keywordsBy isPublisherWord e podcasts)) \<in>
          set (generateDiverseQueries e podcasts)"
    using a k
    by (simp add: generateDiverseQueries_def Let_def removeDuplicateQueries_def
        set_firstOccurrences)
qed

theorem keyword_query_emitted_witness:
  "keywordsBy isPublisherWord env2 [gimletShow, crimeShow] = [''stories'', ''true'', ''history''] \<and>
   contentQuery ''stories'' \<in> set (generateDiverseQueries env2 [gimletShow, crimeShow])"
proof -
  have k: "keywordsBy isPublisherWord env2 [gimletShow, crimeShow] =
           [''stories'', ''true'', ''history'']"
    by code_simp
  show ?thesis
    using keyword_query_emitted [of "[gimletShow, crimeShow]" env2] by (simp add: k)
qed

section \<open>Properties of the candidate collection\<close>

lemma uniqueCandidates_ids:
  "distinct (map podcast_id (uniqueCandidates favoriteIds seenIds ps)) \<and>
   set (map podcast_id (uniqueCandidates favoriteIds seenIds ps)) \<inter>
     (seenIds \<union> set favoriteIds) = {}"
proof (induction ps arbitrary: seenIds)
  case Nil
  then show ?case by simp
next
  case (Cons p ps)
  show ?case
    using Cons.IH [of seenIds] Cons.IH [of "insert (podcast_id p) seenIds"] by auto
qed

text \<open>
  C5. For every favorites list and whatever the catalog answers to the fetches, the
  sequence returned by \<open>getCandidatePodcasts\<close> contains no two entries with the same id
  and no entry whose id is the id of a favorite.
\<close>

theorem candidates_unique_and_not_favorites:
  "distinct (map podcast_id (getCandidatePodcasts e api favoritePodcasts)) \<and>
   set (map podcast_id (getCandidatePodcasts e api favoritePodcasts)) \<inter>
     set (map podcast_id favoritePodcasts) = {}"
proof (cases "favoritePodcasts = []")
  case True
  then show ?thesis by (simp add: getCandidatePodcasts_def)
next
  case False
  then show ?thesis
    unfolding getCandidatePodcasts_def Let_def
    using uniqueCandidates_ids [of "map podcast_id favoritePodcasts" "{}"]
    by (simp only: if_False) blast
qed

theorem candidates_unique_and_not_favorites_witness:
  "map podcast_id (getCandidatePodcasts env2 api1 [gimletShow, crimeShow]) =
     [''p1'', ''p2'', ''p3''] \<and>
   distinct (map podcast_id (getCandidatePodcasts env2 api1 [gimletShow, crimeShow])) \<and>
   set (map podcast_id (getCandidatePodcasts env2 api1 [gimletShow, crimeShow])) \<inter>
     set (map podcast_id [gimletShow, crimeShow]) = {}"
proof -
  have "map podcast_id (getCandidatePodcasts env2 api1 [gimletShow, crimeShow]) =
     [''p1'', ''p2'', ''p3'']"
    by code_simp
  then show ?thesis
    using candidates_unique_and_not_favorites [of env2 api1 "[gimletShow, crimeShow]"]
    by simp
qed

end
